theory Spec2Isabelle
  imports Main "HOL-Library.Char_ord" "HOL-Library.List_Lexorder"
begin

section \<open>Python strings\<close>

text \<open>
  A Python \<open>str\<close> is modelled as a \<open>string\<close>: one \<open>char\<close> per code point, for the code
  points below 256. The stream of bytes printed by a subprocess is a \<open>string\<close> too, one
  \<open>char\<close> per byte; the codec between the two (\<open>bytes.decode('utf-8')\<close>) is a parameter of
  the functions that call it. Strings are ordered as Python orders them: lexicographically,
  by code point.
\<close>

abbreviation LF :: char where "LF \<equiv> CHR 0x0A"
abbreviation CR :: char where "CR \<equiv> CHR 0x0D"

text \<open>\<open>str.isspace\<close> on one character: the white space of Unicode below 256.\<close>

definition isspace :: "char \<Rightarrow> bool" where
  "isspace c \<longleftrightarrow> c \<in> set [CHR 0x09, CHR 0x0A, CHR 0x0B, CHR 0x0C, CHR 0x0D,
                          CHR 0x1C, CHR 0x1D, CHR 0x1E, CHR 0x1F, CHR 0x20, CHR 0x85, CHR 0xA0]"

definition lstrip :: "string \<Rightarrow> string" where
  "lstrip s = dropWhile isspace s"

definition rstrip :: "string \<Rightarrow> string" where
  "rstrip s = rev (dropWhile isspace (rev s))"

text \<open>\<open>s.strip()\<close>\<close>

definition strip :: "string \<Rightarrow> string" where
  "strip s = lstrip (rstrip s)"

text \<open>\<open>s.startswith(p)\<close>\<close>

definition startswith :: "string \<Rightarrow> string \<Rightarrow> bool" where
  "startswith s p \<longleftrightarrow> take (length p) s = p"

text \<open>\<open>s.removeprefix(p)\<close>\<close>

definition removeprefix :: "string \<Rightarrow> string \<Rightarrow> string" where
  "removeprefix s p = (if startswith s p then drop (length p) s else s)"

text \<open>\<open>s.split(sep)\<close> for a separator of one character: never the empty list.\<close>

fun split_sep :: "char \<Rightarrow> string \<Rightarrow> string list" where
  "split_sep sep [] = [[]]"
| "split_sep sep (c # cs) =
     (if c = sep then [] # split_sep sep cs
      else (case split_sep sep cs of
              [] \<Rightarrow> [[c]]
            | w # ws \<Rightarrow> (c # w) # ws))"

text \<open>\<open>sep.join(xs)\<close>\<close>

fun join_str :: "string \<Rightarrow> string list \<Rightarrow> string" where
  "join_str sep [] = []"
| "join_str sep [x] = x"
| "join_str sep (x # y # ys) = x @ sep @ join_str sep (y # ys)"

text \<open>
  \<open>splitlines()\<close> without the line ends. A carriage return followed by a line feed is one
  line boundary; a last line that is empty is not reported. The characters that end a line
  are those of \<open>brk\<close>: \<open>str.splitlines\<close> knows more of them than \<open>bytes.splitlines\<close>.
\<close>

fun splitlines_from :: "(char \<Rightarrow> bool) \<Rightarrow> string \<Rightarrow> string \<Rightarrow> string list" where
  "splitlines_from brk acc [] = (if acc = [] then [] else [acc])"
| "splitlines_from brk acc [c] = (if brk c then [acc] else [acc @ [c]])"
| "splitlines_from brk acc (c # d # cs) =
     (if c = CR \<and> d = LF then acc # splitlines_from brk [] cs
      else if brk c then acc # splitlines_from brk [] (d # cs)
      else splitlines_from brk (acc @ [c]) (d # cs))"

definition str_linebreak :: "char \<Rightarrow> bool" where
  "str_linebreak c \<longleftrightarrow> c \<in> set [CHR 0x0A, CHR 0x0D, CHR 0x0B, CHR 0x0C,
                                CHR 0x1C, CHR 0x1D, CHR 0x1E, CHR 0x85]"

definition bytes_linebreak :: "char \<Rightarrow> bool" where
  "bytes_linebreak c \<longleftrightarrow> c = LF \<or> c = CR"

definition str_splitlines :: "string \<Rightarrow> string list" where
  "str_splitlines s = splitlines_from str_linebreak [] s"

definition bytes_splitlines :: "string \<Rightarrow> string list" where
  "bytes_splitlines s = splitlines_from bytes_linebreak [] s"

text \<open>
  \<open>f.readlines()\<close> of a file opened in text mode: every line keeps its end, which universal
  newlines turn into one line feed; a last line without an end is reported as it is.
\<close>

fun readlines_from :: "string \<Rightarrow> string \<Rightarrow> string list" where
  "readlines_from acc [] = (if acc = [] then [] else [acc])"
| "readlines_from acc [c] = (if c = LF \<or> c = CR then [acc @ [LF]] else [acc @ [c]])"
| "readlines_from acc (c # d # cs) =
     (if c = CR \<and> d = LF then (acc @ [LF]) # readlines_from [] cs
      else if c = LF \<or> c = CR then (acc @ [LF]) # readlines_from [] (d # cs)
      else readlines_from (acc @ [c]) (d # cs))"

definition readlines :: "string \<Rightarrow> string list" where
  "readlines s = readlines_from [] s"

section \<open>\<open>os.path\<close>\<close>

text \<open>
  \<open>posixpath.normpath\<close>: one leading slash stays, exactly two stay two, three or more
  become one; empty and \<open>.\<close> components go; \<open>..\<close> removes the component before it, stays
  at the start of a relative path and goes at the root. The result is never empty.
\<close>

definition initial_slashes :: "string \<Rightarrow> nat" where
  "initial_slashes path =
     (if \<not> startswith path ''/'' then 0
      else if startswith path ''//'' \<and> \<not> startswith path ''///'' then 2
      else 1)"

definition norm_step :: "nat \<Rightarrow> string list \<Rightarrow> string \<Rightarrow> string list" where
  "norm_step slashes new_comps component =
     (if component = [] \<or> component = ''.'' then new_comps
      else if component \<noteq> ''..'' \<or> (slashes = 0 \<and> new_comps = [])
              \<or> (new_comps \<noteq> [] \<and> last new_comps = ''..'')
        then new_comps @ [component]
      else if new_comps \<noteq> [] then butlast new_comps
      else new_comps)"

definition normpath :: "string \<Rightarrow> string" where
  "normpath path =
     (if path = [] then ''.''
      else
        let slashes = initial_slashes path;
            comps = foldl (norm_step slashes) [] (split_sep (CHR ''/'') path);
            path' = replicate slashes (CHR ''/'') @ join_str ''/'' comps
        in if path' = [] then ''.'' else path')"

definition isabs :: "string \<Rightarrow> bool" where
  "isabs s \<longleftrightarrow> startswith s ''/''"

text \<open>\<open>os.path.join(a, b)\<close>\<close>

definition path_join :: "string \<Rightarrow> string \<Rightarrow> string" where
  "path_join a b =
     (if startswith b ''/'' then b
      else if a = [] \<or> (a \<noteq> [] \<and> last a = CHR ''/'') then a @ b
      else a @ ''/'' @ b)"

text \<open>\<open>os.path.abspath(path)\<close>, in a process whose working directory is \<open>cwd\<close>.\<close>

definition abspath :: "string \<Rightarrow> string \<Rightarrow> string" where
  "abspath cwd path = normpath (if isabs path then path else path_join cwd path)"

section \<open>The source extractor (\<open>extract_sources.py\<close>)\<close>

text \<open>Every exception the two programs can raise is a value.\<close>

datatype error =
    CalledProcessError | OSError | UnicodeDecodeError | JSONDecodeError
  | RequestException | KeyError | TypeError | AttributeError

text \<open>What \<open>logging\<close> is asked to write.\<close>

datatype log_record = Info string | Warning string | Exception_logged error string

definition OUTPUT_FILENAME :: string where
  "OUTPUT_FILENAME = ''sources.txt''"

text \<open>
  \<open>normalize_source_path\<close>, the function nested in \<open>extract_sources_from_binary\<close>. The
  global \<open>CUR_DIR\<close> (the absolute path of the working directory when the module is loaded)
  is its first argument. The result is the warnings logged and the value returned.
\<close>

definition normalize_source_path :: "string \<Rightarrow> string \<Rightarrow> log_record list \<times> string" where
  "normalize_source_path CUR_DIR path =
     (let path = strip path
      in if \<not> startswith path CUR_DIR
         then ([Warning (''Found anomalous source file path '' @ path)], [])
         else ([], normpath (removeprefix path (CUR_DIR @ ''/''))))"

text \<open>
  \<open>subprocess.check_output\<close> on what the run of a command gave: either the command could
  not be started, or it ended with an exit status and its standard output. Any status but
  zero is raised.
\<close>

definition check_output :: "error + int \<times> string \<Rightarrow> error + string" where
  "check_output r =
     (case r of
        Inl e \<Rightarrow> Inl e
      | Inr (returncode, out) \<Rightarrow> if returncode \<noteq> 0 then Inl CalledProcessError else Inr out)"

text \<open>
  \<open>extract_sources_from_binary\<close>. \<open>llvm_dwarfdump binary_path\<close> is the run of
  \<open>llvm-dwarfdump --show-sources binary_path\<close>, and \<open>decode\<close> is \<open>bytes.decode('utf-8')\<close>.
\<close>

definition extract_sources_from_binary ::
  "string \<Rightarrow> (string \<Rightarrow> error + int \<times> string) \<Rightarrow> (string \<Rightarrow> error + string) \<Rightarrow> string
     \<Rightarrow> log_record list \<times> (error + string list)" where
  "extract_sources_from_binary CUR_DIR llvm_dwarfdump decode binary_path =
     (let started = [Info (''Extracting sources from '' @ binary_path)]
      in case check_output (llvm_dwarfdump binary_path) of
           Inl e \<Rightarrow> (started, Inl e)
         | Inr raw \<Rightarrow>
             (case decode raw of
                Inl e \<Rightarrow> (started, Inl e)
              | Inr output \<Rightarrow>
                  let normalized = map (normalize_source_path CUR_DIR) (str_splitlines (strip output))
                  in (started @ concat (map fst normalized),
                      Inr (filter (\<lambda>f. f \<notin> set [[], ''<built-in>'']) (map snd normalized)))))"

text \<open>
  The generator of \<open>extract_sources\<close>: the binaries one after the other, the first failure
  ending the whole iteration.
\<close>

fun sources_of_binaries ::
  "string \<Rightarrow> (string \<Rightarrow> error + int \<times> string) \<Rightarrow> (string \<Rightarrow> error + string) \<Rightarrow> string list
     \<Rightarrow> log_record list \<times> (error + string list)" where
  "sources_of_binaries CUR_DIR llvm_dwarfdump decode [] = ([], Inr [])"
| "sources_of_binaries CUR_DIR llvm_dwarfdump decode (binary # binaries) =
     (case extract_sources_from_binary CUR_DIR llvm_dwarfdump decode binary of
        (l, Inl e) \<Rightarrow> (l, Inl e)
      | (l, Inr found) \<Rightarrow>
          (case sources_of_binaries CUR_DIR llvm_dwarfdump decode binaries of
             (l', Inl e) \<Rightarrow> (l @ l', Inl e)
           | (l', Inr more) \<Rightarrow> (l @ l', Inr (found @ more))))"

text \<open>
  \<open>list(set(...))\<close> keeps one copy of every element, in an order that Python does not fix
  (it follows the hashes of the strings). The order is the parameter \<open>list_of_set\<close> of the
  model; this is all that is known of it.
\<close>

definition set_order :: "(string list \<Rightarrow> string list) \<Rightarrow> bool" where
  "set_order list_of_set \<longleftrightarrow> (\<forall>xs. distinct (list_of_set xs) \<and> set (list_of_set xs) = set xs)"

text \<open>\<open>extract_sources\<close>; \<open>modules\<close> is what \<open>glob.glob('**/*.ko', recursive=True)\<close> finds.\<close>

definition extract_sources ::
  "(string list \<Rightarrow> string list) \<Rightarrow> string \<Rightarrow> (string \<Rightarrow> error + int \<times> string)
     \<Rightarrow> (string \<Rightarrow> error + string) \<Rightarrow> string list \<Rightarrow> log_record list \<times> (error + string list)" where
  "extract_sources list_of_set CUR_DIR llvm_dwarfdump decode modules =
     (let binaries = ''vmlinux'' # modules
      in case sources_of_binaries CUR_DIR llvm_dwarfdump decode binaries of
           (l, Inl e) \<Rightarrow> (l, Inl e)
         | (l, Inr found) \<Rightarrow> (l, Inr (list_of_set found)))"

text \<open>
  The state of a run: the list objects of the program by address, the address of the next
  list to be made, and the text files by path.
\<close>

record state =
  heap :: "nat \<rightharpoonup> string list"
  next_addr :: nat
  files :: "string \<rightharpoonup> string"

definition new_list :: "string list \<Rightarrow> state \<Rightarrow> nat \<times> state" where
  "new_list xs st =
     (next_addr st, st\<lparr>heap := (heap st)(next_addr st \<mapsto> xs), next_addr := Suc (next_addr st)\<rparr>)"

text \<open>
  \<open>write_sources\<close>. The argument \<open>sources\<close> is the address of the caller's list, which
  \<open>sources.sort()\<close> sorts where it is, before anything is written. \<open>writable file\<close> says
  whether \<open>os.makedirs\<close> and \<open>open\<close> succeed for the output file; when they do not, an
  \<open>OSError\<close> is raised and no file has changed. The file holds what
  \<open>print(*sources, sep='\n')\<close> writes: the lines joined by line feeds, and one more line feed.
\<close>

definition write_sources ::
  "(string \<Rightarrow> bool) \<Rightarrow> string \<Rightarrow> nat \<Rightarrow> string \<Rightarrow> state \<Rightarrow> log_record list \<times> state \<times> (error + unit)" where
  "write_sources writable CUR_DIR sources output_dir st =
     (case heap st sources of
        None \<Rightarrow> ([], st, Inl AttributeError)
      | Some xs \<Rightarrow>
          let st = st\<lparr>heap := (heap st)(sources \<mapsto> sort xs)\<rparr>;
              output_dir = abspath CUR_DIR output_dir;
              output_file = path_join output_dir OUTPUT_FILENAME;
              l = [Info (''Writing sources to '' @ output_file)]
          in if \<not> writable output_file then (l, st, Inl OSError)
             else (l, st\<lparr>files := (files st)(output_file \<mapsto> join_str [LF] (sort xs) @ [LF])\<rparr>, Inr ()))"

text \<open>
  \<open>main\<close> of \<open>extract_sources.py\<close>. The two build steps are commands run outside the program: each is a parameter that
  takes the state to a new state and may fail. Every failure is logged and followed by
  \<open>exit(0)\<close>, so the result is what was logged and the state the process leaves.
\<close>

definition main_extract_sources ::
  "bool \<Rightarrow> (state \<Rightarrow> state \<times> (error + unit)) \<Rightarrow> (state \<Rightarrow> state \<times> (error + unit))
     \<Rightarrow> (string list \<Rightarrow> string list) \<Rightarrow> (string \<Rightarrow> bool) \<Rightarrow> string
     \<Rightarrow> (string \<Rightarrow> error + int \<times> string) \<Rightarrow> (string \<Rightarrow> error + string) \<Rightarrow> string list \<Rightarrow> string
     \<Rightarrow> state \<Rightarrow> log_record list \<times> state" where
  "main_extract_sources no_compile setup_config compile_kernel list_of_set writable CUR_DIR llvm_dwarfdump decode
        modules output_dir st =
     (let extract_and_write = (\<lambda>st.
            case extract_sources list_of_set CUR_DIR llvm_dwarfdump decode modules of
              (l, Inl e) \<Rightarrow>
                (l @ [Exception_logged e ''Failed to extract sources from compiled binaries''], st)
            | (l, Inr found) \<Rightarrow>
                (case new_list found st of
                   (sources, st) \<Rightarrow>
                     (case write_sources writable CUR_DIR sources output_dir st of
                        (l', st, Inl e) \<Rightarrow>
                          (l @ l' @ [Exception_logged e ''Failed to write output''], st)
                      | (l', st, Inr _) \<Rightarrow> (l @ l', st))))
      in if no_compile then extract_and_write st
         else case setup_config st of
                (st, Inl e) \<Rightarrow> ([Exception_logged e ''Failed to set up kernel config''], st)
              | (st, Inr _) \<Rightarrow>
                  (case compile_kernel st of
                     (st, Inl e) \<Rightarrow> ([Exception_logged e ''Failed to compile kernel''], st)
                   | (st, Inr _) \<Rightarrow> extract_and_write st))"

section \<open>The correlator (\<open>process_cves.py\<close>)\<close>

text \<open>
  What \<open>json.loads\<close> returns: the records of the feed are \<open>dict[str, Any]\<close>. An object is
  the list of its items.
\<close>

datatype json =
    JNull | JBool bool | JNumber int | JString string
  | JArray "json list" | JObject "(string \<times> json) list"

text \<open>\<open>x[key]\<close> for a string \<open>key\<close>: only a dict can be read so, and only at a key it has.\<close>

fun subscript :: "json \<Rightarrow> string \<Rightarrow> error + json" where
  "subscript (JObject items) key =
     (case map_of items key of None \<Rightarrow> Inl KeyError | Some v \<Rightarrow> Inr v)"
| "subscript _ key = Inl TypeError"

text \<open>
  \<open>for x in v\<close>: a list gives its elements, a dict its keys, a string its characters;
  nothing else can be iterated.
\<close>

fun iterate :: "json \<Rightarrow> error + json list" where
  "iterate (JArray xs) = Inr xs"
| "iterate (JObject items) = Inr (map (\<lambda>(k, v). JString k) items)"
| "iterate (JString s) = Inr (map (\<lambda>c. JString [c]) s)"
| "iterate _ = Inl TypeError"

definition FIX_COMMIT_PREFIX :: string where
  "FIX_COMMIT_PREFIX = ''https://git.kernel.org/stable/c/''"

text \<open>\<open>url.split("/")[-1].strip()\<close>\<close>

definition commit_of :: "string \<Rightarrow> string" where
  "commit_of url = strip (last (split_sep (CHR ''/'') url))"

text \<open>
  \<open>[line.decode("utf-8").strip() for line in response.stdout.splitlines()]\<close>: every line
  is decoded before any is looked up.
\<close>

fun decode_lines :: "(string \<Rightarrow> error + string) \<Rightarrow> string list \<Rightarrow> error + string list" where
  "decode_lines decode [] = Inr []"
| "decode_lines decode (line # lines) =
     (case decode line of
        Inl e \<Rightarrow> Inl e
      | Inr s \<Rightarrow>
          (case decode_lines decode lines of
             Inl e \<Rightarrow> Inl e
           | Inr ss \<Rightarrow> Inr (strip s # ss)))"

text \<open>
  The loop of \<open>evaluate_cve\<close> over the references. \<open>git_show commit\<close> is the run of
  \<open>git show --pretty= --name-only commit\<close> in the checkout: it cannot be started, or it ends
  with an exit status and its standard output. The result is the commits asked of git, in
  order, and what the loop returns or raises.
\<close>

fun evaluate_refs ::
  "(string \<Rightarrow> error + int \<times> string) \<Rightarrow> (string \<Rightarrow> error + string) \<Rightarrow> string set \<Rightarrow> json list
     \<Rightarrow> string list \<times> (error + bool)" where
  "evaluate_refs git_show decode compiled_files [] = ([], Inr False)"
| "evaluate_refs git_show decode compiled_files (ref # refs) =
     (case subscript ref ''url'' of
        Inl e \<Rightarrow> ([], Inl e)
      | Inr (JString url) \<Rightarrow>
          if startswith url FIX_COMMIT_PREFIX then
            let commit = commit_of url
            in case git_show commit of
                 Inl e \<Rightarrow> ([commit], Inl e)
               | Inr (returncode, stdout) \<Rightarrow>
                   if returncode \<noteq> 0 then
                     (case evaluate_refs git_show decode compiled_files refs of
                        (asked, r) \<Rightarrow> (commit # asked, r))
                   else
                     (case decode_lines decode (bytes_splitlines stdout) of
                        Inl e \<Rightarrow> ([commit], Inl e)
                      | Inr affected_files \<Rightarrow>
                          ([commit], Inr (list_ex (\<lambda>f. f \<in> compiled_files) affected_files)))
          else evaluate_refs git_show decode compiled_files refs
      | Inr _ \<Rightarrow> ([], Inl AttributeError))"

text \<open>\<open>evaluate_cve\<close>\<close>

definition evaluate_cve ::
  "(string \<Rightarrow> error + int \<times> string) \<Rightarrow> (string \<Rightarrow> error + string) \<Rightarrow> json \<Rightarrow> string set
     \<Rightarrow> string list \<times> (error + bool)" where
  "evaluate_cve git_show decode cve compiled_files =
     (case subscript cve ''references'' of
        Inl e \<Rightarrow> ([], Inl e)
      | Inr references \<Rightarrow>
          (case iterate references of
             Inl e \<Rightarrow> ([], Inl e)
           | Inr refs \<Rightarrow> evaluate_refs git_show decode compiled_files refs))"

text \<open>What the correlator prints.\<close>

datatype printed =
    Failed_to_fetch | Processing_CVE json | Applicable json | We_care_about nat

text \<open>\<open>[vuln["cve"] for vuln in results["vulnerabilities"]]\<close>\<close>

fun cves_of :: "json list \<Rightarrow> error + json list" where
  "cves_of [] = Inr []"
| "cves_of (vuln # vulns) =
     (case subscript vuln ''cve'' of
        Inl e \<Rightarrow> Inl e
      | Inr cve \<Rightarrow> (case cves_of vulns of Inl e \<Rightarrow> Inl e | Inr cves \<Rightarrow> Inr (cve # cves)))"

text \<open>
  \<open>fetch_cves\<close>. \<open>response\<close> is what \<open>requests.get(url)\<close> gave: an exception, or a status
  code and a body. \<open>json_loads\<close> is \<open>json.loads\<close>.
\<close>

definition fetch_cves ::
  "error + int \<times> string \<Rightarrow> (string \<Rightarrow> error + json) \<Rightarrow> printed list \<times> (error + json list)" where
  "fetch_cves response json_loads =
     (case response of
        Inl e \<Rightarrow> ([], Inl e)
      | Inr (status_code, body) \<Rightarrow>
          if status_code \<noteq> 200 then ([Failed_to_fetch], Inr [])
          else
            (case json_loads body of
               Inl e \<Rightarrow> ([], Inl e)
             | Inr results \<Rightarrow>
                 (case subscript results ''vulnerabilities'' of
                    Inl e \<Rightarrow> ([], Inl e)
                  | Inr vulnerabilities \<Rightarrow>
                      (case iterate vulnerabilities of
                         Inl e \<Rightarrow> ([], Inl e)
                       | Inr vulns \<Rightarrow> ([], cves_of vulns)))))"

text \<open>The loop of \<open>main\<close> over the records, from the count reached so far.\<close>

fun count_cves ::
  "(string \<Rightarrow> error + int \<times> string) \<Rightarrow> (string \<Rightarrow> error + string) \<Rightarrow> string set \<Rightarrow> json list \<Rightarrow> nat
     \<Rightarrow> printed list \<times> (error + nat)" where
  "count_cves git_show decode compiled_files [] count = ([We_care_about count], Inr count)"
| "count_cves git_show decode compiled_files (cve # cves) count =
     (case subscript cve ''id'' of
        Inl e \<Rightarrow> ([], Inl e)
      | Inr ident \<Rightarrow>
          (case snd (evaluate_cve git_show decode cve compiled_files) of
             Inl e \<Rightarrow> ([Processing_CVE ident], Inl e)
           | Inr applicable \<Rightarrow>
               if applicable then
                 (case count_cves git_show decode compiled_files cves (count + 1) of
                    (out, r) \<Rightarrow> (Processing_CVE ident # Applicable ident # out, r))
               else
                 (case count_cves git_show decode compiled_files cves count of
                    (out, r) \<Rightarrow> (Processing_CVE ident # out, r))))"

text \<open>
  The loading step of \<open>main\<close>:
  \<open>set([path.normpath(f.strip()) for f in compiled_files])\<close> over the lines of the file.
\<close>

definition load_compiled_files :: "string \<Rightarrow> string set" where
  "load_compiled_files content = set (map (\<lambda>f. normpath (strip f)) (readlines content))"

text \<open>
  \<open>main\<close> of \<open>process_cves.py\<close>: the file is read first, and the feed is asked only once
  that has succeeded. The result is what was printed, and the final count or the exception.
\<close>

definition main_process_cves ::
  "(string \<rightharpoonup> string) \<Rightarrow> error + int \<times> string \<Rightarrow> (string \<Rightarrow> error + json)
     \<Rightarrow> (string \<Rightarrow> error + int \<times> string) \<Rightarrow> (string \<Rightarrow> error + string)
     \<Rightarrow> printed list \<times> (error + nat)" where
  "main_process_cves fs response json_loads git_show decode =
     (case fs ''compiled_files.txt'' of
        None \<Rightarrow> ([], Inl OSError)
      | Some content \<Rightarrow>
          let compiled_files = load_compiled_files content
          in (case fetch_cves response json_loads of
                (out, Inl e) \<Rightarrow> (out, Inl e)
              | (out, Inr cves) \<Rightarrow>
                  (case count_cves git_show decode compiled_files cves 0 of
                     (out', r) \<Rightarrow> (out @ out', r))))"

section \<open>Sample inputs\<close>

text \<open>
  A build root \<open>/home/u/linux\<close> with three artifacts that have debug information and any
  other artifact for which the tool fails; a checkout in which commit \<open>aaa\<close> is unknown,
  commit \<open>bbb\<close> changed two files and commit \<open>ccc\<close> changed the file \<open>a.c\<close> of a
  directory whose name is a space and a dot; bytes that are ASCII, so that decoding leaves them as
  they are.
\<close>

definition sample_dwarfdump :: "string \<Rightarrow> error + int \<times> string" where
  "sample_dwarfdump binary =
     (if binary = ''vmlinux'' then
        Inr (0, ''/home/u/linux/kernel/fork.c'' @ [LF] @ ''/home/u/linux/./kernel/fork.c'' @ [LF]
                  @ ''<built-in>'' @ [LF])
      else if binary = ''drivers/a.ko'' then
        Inr (0, ''/home/u/linux/kernel/fork.c'' @ [LF] @ ''/home/u/linux/drivers/a.c'' @ [LF]
                  @ ''/usr/include/stdio.h'' @ [LF])
      else if binary = ''lib/c.ko'' then
        Inr (0, ''/home/u/linux-headers/include/x.h'' @ [LF])
      else Inr (1, []))"

definition sample_git_show :: "string \<Rightarrow> error + int \<times> string" where
  "sample_git_show commit =
     (if commit = ''aaa'' then Inr (128, [])
      else if commit = ''bbb'' then Inr (0, ''fs/a.c'' @ [LF] @ ''fs/b.c'' @ [LF])
      else if commit = ''ccc'' then Inr (0, '' ./a.c'' @ [LF])
      else Inl OSError)"

definition reference :: "string \<Rightarrow> json" where
  "reference url = JObject [(''url'', JString url)]"

definition sample_cve :: "string list \<Rightarrow> json" where
  "sample_cve urls =
     JObject [(''id'', JString ''CVE-2024-0001''), (''references'', JArray (map reference urls))]"

definition every_file :: "string \<Rightarrow> bool" where
  "every_file output_file = True"

definition nothing_to_build :: "state \<Rightarrow> state \<times> (error + unit)" where
  "nothing_to_build st = (st, Inr ())"

definition state_of_list :: "string list \<Rightarrow> state" where
  "state_of_list xs = \<lparr>heap = [0 \<mapsto> xs], next_addr = 1, files = Map.empty\<rparr>"

definition sample_files :: "string \<rightharpoonup> string" where
  "sample_files = [''compiled_files.txt'' \<mapsto> ''fs/a.c'' @ [LF]]"

definition no_json :: "string \<Rightarrow> error + json" where
  "no_json body = Inl JSONDecodeError"

definition no_file :: "string \<Rightarrow> bool" where
  "no_file output_file = False"

section \<open>Facts about the library functions\<close>

lemma normpath_not_empty: "normpath path \<noteq> []"
  by (simp add: normpath_def Let_def)

lemma sort_eq_iff_sorted: "sort xs = xs \<longleftrightarrow> sorted xs"
  by (metis sorted_sort sorted_sort_id)

lemma count_list_distinct:
  "distinct xs \<Longrightarrow> x \<in> set xs \<Longrightarrow> count_list xs x = 1"
  by (induction xs) (auto simp: count_list_0_iff)

lemma join_str_Cons:
  "join_str sep (x # xs) = (if xs = [] then x else x @ sep @ join_str sep xs)"
  by (cases xs) simp_all

text \<open>A line without a line end in it, followed by a line feed, is read back as one line.\<close>

lemma readlines_from_line:
  assumes "LF \<notin> set p" and "CR \<notin> set p"
  shows "readlines_from acc (p @ LF # rest) = (acc @ p @ [LF]) # readlines_from [] rest"
  using assms
proof (induction p arbitrary: acc)
  case Nil
  then show ?case by (cases rest) simp_all
next
  case (Cons c p)
  then have "readlines_from (acc @ [c]) (p @ LF # rest)
               = ((acc @ [c]) @ p @ [LF]) # readlines_from [] rest"
    by simp
  moreover obtain d cs where "p @ LF # rest = d # cs"
    by (cases p) simp_all
  ultimately show ?case
    using Cons.prems by auto
qed

lemma readlines_join:
  assumes "xs \<noteq> []" and "\<forall>p \<in> set xs. LF \<notin> set p \<and> CR \<notin> set p"
  shows "readlines_from [] (join_str [LF] xs @ [LF]) = map (\<lambda>p. p @ [LF]) xs"
  using assms
proof (induction xs)
  case Nil
  then show ?case by simp
next
  case (Cons x xs)
  show ?case
  proof (cases "xs = []")
    case True
    then show ?thesis
      using Cons.prems readlines_from_line [of x "[]" "[]"] by simp
  next
    case False
    then show ?thesis
      using Cons readlines_from_line [of x "[]" "join_str [LF] xs @ [LF]"]
      by (simp add: join_str_Cons)
  qed
qed

lemma strip_line:
  assumes "strip p = p"
  shows "strip (p @ [LF]) = p"
  using assms by (simp add: strip_def rstrip_def lstrip_def isspace_def)

section \<open>Facts about the extractor\<close>

lemma extract_sources_from_binary_ok:
  assumes "llvm_dwarfdump binary = Inr (0, raw)" and "decode raw = Inr listing"
  shows "snd (extract_sources_from_binary CUR_DIR llvm_dwarfdump decode binary)
           = Inr (filter (\<lambda>f. f \<notin> set [[], ''<built-in>''])
                    (map (\<lambda>line. snd (normalize_source_path CUR_DIR line))
                       (str_splitlines (strip listing))))"
  using assms
  by (simp add: extract_sources_from_binary_def check_output_def Let_def comp_def)

text \<open>The two halves of the invariant of a kept path that the filter does give.\<close>

lemma extracted_path_kept:
  assumes "snd (extract_sources_from_binary CUR_DIR llvm_dwarfdump decode binary) = Inr found"
    and "p \<in> set found"
  shows "p \<noteq> [] \<and> p \<noteq> ''<built-in>''"
  using assms
  by (auto simp: extract_sources_from_binary_def Let_def split: sum.splits)

lemma sources_of_binaries_subset:
  assumes "sources_of_binaries CUR_DIR llvm_dwarfdump decode binaries = (l, Inr found)"
    and "binary \<in> set binaries"
    and "snd (extract_sources_from_binary CUR_DIR llvm_dwarfdump decode binary) = Inr part"
  shows "set part \<subseteq> set found"
  using assms
proof (induction binaries arbitrary: l found)
  case Nil
  then show ?case by simp
next
  case (Cons b bs)
  then show ?case
    by (auto split: prod.splits sum.splits)
qed

lemma sources_of_binaries_fails:
  assumes "binary \<in> set binaries"
    and "llvm_dwarfdump binary = Inr (returncode, out)" and "returncode \<noteq> 0"
  shows "\<exists>l e. sources_of_binaries CUR_DIR llvm_dwarfdump decode binaries = (l, Inl e)"
  using assms
proof (induction binaries)
  case Nil
  then show ?case by simp
next
  case (Cons b bs)
  show ?case
  proof (cases "binary = b")
    case True
    with Cons.prems show ?thesis
      by (simp add: extract_sources_from_binary_def check_output_def)
  next
    case False
    with Cons obtain l e where "sources_of_binaries CUR_DIR llvm_dwarfdump decode bs = (l, Inl e)"
      by auto
    then show ?thesis
      by (auto split: prod.splits sum.splits)
  qed
qed

section \<open>Facts about the correlator\<close>

text \<open>References that are no fix commits leave no trace in the loop.\<close>

lemma evaluate_refs_skip_unrelated:
  assumes "\<forall>ref \<in> set before. \<exists>url. subscript ref ''url'' = Inr (JString url)
              \<and> \<not> startswith url FIX_COMMIT_PREFIX"
  shows "evaluate_refs git_show decode compiled_files (before @ rest)
           = evaluate_refs git_show decode compiled_files rest"
  using assms by (induction before) auto

text \<open>Fix commits that git does not know change what is asked of git, not the verdict.\<close>

lemma evaluate_refs_skip_failed:
  assumes "\<forall>ref \<in> set before. \<exists>url. subscript ref ''url'' = Inr (JString url)
              \<and> (startswith url FIX_COMMIT_PREFIX \<longrightarrow>
                    (\<exists>returncode out. git_show (commit_of url) = Inr (returncode, out)
                       \<and> returncode \<noteq> 0))"
  shows "snd (evaluate_refs git_show decode compiled_files (before @ rest))
           = snd (evaluate_refs git_show decode compiled_files rest)"
  using assms by (induction before) (auto split: prod.splits)

lemma decode_lines_texts:
  assumes "\<forall>line \<in> set lines. decode line = Inr (str_of line)"
  shows "decode_lines decode lines = Inr (map (\<lambda>line. strip (str_of line)) lines)"
  using assms by (induction lines) auto

text \<open>
  The verdict of \<open>evaluate_cve\<close> at a record whose first fix commit known to git is that of
  \<open>ref\<close>: some line printed by git, decoded and trimmed, is a compiled path.
\<close>

lemma evaluate_cve_verdict:
  assumes refs: "subscript cve ''references'' = Inr (JArray (before @ ref # later))"
    and before: "\<forall>r \<in> set before. \<exists>u. subscript r ''url'' = Inr (JString u)
                   \<and> (startswith u FIX_COMMIT_PREFIX \<longrightarrow>
                        (\<exists>returncode out. git_show (commit_of u) = Inr (returncode, out)
                           \<and> returncode \<noteq> 0))"
    and ref: "subscript ref ''url'' = Inr (JString url)" "startswith url FIX_COMMIT_PREFIX"
    and resolved: "git_show (commit_of url) = Inr (0, stdout)"
    and decoded: "\<forall>line \<in> set (bytes_splitlines stdout). decode line = Inr (str_of line)"
  shows "snd (evaluate_cve git_show decode cve compiled_files)
           = Inr (\<exists>line \<in> set (bytes_splitlines stdout). strip (str_of line) \<in> compiled_files)"
proof -
  have "snd (evaluate_refs git_show decode compiled_files (before @ ref # later))
          = snd (evaluate_refs git_show decode compiled_files (ref # later))"
    using before by (rule evaluate_refs_skip_failed)
  also have "\<dots> = Inr (list_ex (\<lambda>f. f \<in> compiled_files)
                        (map (\<lambda>line. strip (str_of line)) (bytes_splitlines stdout)))"
    using ref resolved decode_lines_texts [OF decoded] by simp
  also have "\<dots> = Inr (\<exists>line \<in> set (bytes_splitlines stdout). strip (str_of line) \<in> compiled_files)"
    by (simp add: list_ex_iff)
  finally show ?thesis
    using refs by (simp add: evaluate_cve_def)
qed

text \<open>
  Where every path printed by git, once trimmed, is one that \<open>normpath\<close> leaves alone,
  the verdict against the paths loaded by \<open>main\<close> is the comparison of both sides under
  the same normalization.
\<close>

lemma evaluate_cve_verdict_canonical:
  assumes refs: "subscript cve ''references'' = Inr (JArray (before @ ref # later))"
    and before: "\<forall>r \<in> set before. \<exists>u. subscript r ''url'' = Inr (JString u)
                   \<and> (startswith u FIX_COMMIT_PREFIX \<longrightarrow>
                        (\<exists>returncode out. git_show (commit_of u) = Inr (returncode, out)
                           \<and> returncode \<noteq> 0))"
    and ref: "subscript ref ''url'' = Inr (JString url)" "startswith url FIX_COMMIT_PREFIX"
    and resolved: "git_show (commit_of url) = Inr (0, stdout)"
    and decoded: "\<forall>line \<in> set (bytes_splitlines stdout). decode line = Inr (str_of line)"
    and canonical: "\<forall>line \<in> set (bytes_splitlines stdout).
                      normpath (strip (str_of line)) = strip (str_of line)"
  shows "snd (evaluate_cve git_show decode cve (load_compiled_files content))
           = Inr ((\<lambda>line. normpath (strip (str_of line))) ` set (bytes_splitlines stdout)
                    \<inter> (\<lambda>f. normpath (strip f)) ` set (readlines content) \<noteq> {})"
proof -
  have "snd (evaluate_cve git_show decode cve (load_compiled_files content))
          = Inr (\<exists>line \<in> set (bytes_splitlines stdout).
                   strip (str_of line) \<in> load_compiled_files content)"
    using refs before ref resolved decoded by (rule evaluate_cve_verdict)
  moreover have "(\<exists>line \<in> set (bytes_splitlines stdout).
                    strip (str_of line) \<in> load_compiled_files content)
                 \<longleftrightarrow> (\<lambda>line. normpath (strip (str_of line))) ` set (bytes_splitlines stdout)
                       \<inter> (\<lambda>f. normpath (strip f)) ` set (readlines content) \<noteq> {}"
    using canonical by (auto simp: load_compiled_files_def)
  ultimately show ?thesis
    by simp
qed

section \<open>The claims\<close>

subsection \<open>C1: a fix commit that git does not know\<close>

text \<open>
  C1, as stated, fails. The record below has two fix-commit references; the query for the
  first, \<open>aaa\<close>, exits with status 128. \<open>evaluate_cve\<close> does not return false: it goes on
  to the second reference, asks git for \<open>bbb\<close>, and returns true.
\<close>

theorem evaluate_cve_examines_later_reference:
  "startswith ''https://git.kernel.org/stable/c/aaa'' FIX_COMMIT_PREFIX
   \<and> sample_git_show (commit_of ''https://git.kernel.org/stable/c/aaa'') = Inr (128, [])
   \<and> evaluate_cve sample_git_show Inr
        (sample_cve [''https://git.kernel.org/stable/c/aaa'', ''https://git.kernel.org/stable/c/bbb''])
        (set [''fs/a.c''])
      = ([''aaa'', ''bbb''], Inr True)"
  by code_simp

text \<open>
  C1, amended: when the query for the first fix-commit reference of a record exits non-zero,
  \<open>evaluate_cve\<close> does not return at that reference. It skips it and examines the
  references after it: the failed commit is the first one asked of git, and the verdict and
  the further queries are exactly those of the loop over the later references alone.
\<close>

theorem evaluate_cve_continues_after_failed_query:
  assumes refs: "subscript cve ''references'' = Inr (JArray (before @ ref # later))"
    and before: "\<forall>r \<in> set before. \<exists>u. subscript r ''url'' = Inr (JString u)
                   \<and> \<not> startswith u FIX_COMMIT_PREFIX"
    and ref: "subscript ref ''url'' = Inr (JString url)" "startswith url FIX_COMMIT_PREFIX"
    and failed: "git_show (commit_of url) = Inr (returncode, out)" "returncode \<noteq> 0"
  shows "evaluate_cve git_show decode cve compiled_files
           = (commit_of url # fst (evaluate_refs git_show decode compiled_files later),
              snd (evaluate_refs git_show decode compiled_files later))"
proof -
  have "evaluate_refs git_show decode compiled_files (before @ ref # later)
          = evaluate_refs git_show decode compiled_files (ref # later)"
    using before by (rule evaluate_refs_skip_unrelated)
  also have "\<dots> = (commit_of url # fst (evaluate_refs git_show decode compiled_files later),
                   snd (evaluate_refs git_show decode compiled_files later))"
    using ref failed by (simp split: prod.splits)
  finally show ?thesis
    using refs by (simp add: evaluate_cve_def)
qed

text \<open>
  The amended C1 at a record with an advisory link, the unknown commit \<open>aaa\<close> and the
  known commit \<open>bbb\<close> after it: git is asked for both, and the verdict is the one that
  \<open>bbb\<close> gives alone.
\<close>

theorem evaluate_cve_continues_after_failed_query_witness:
  "evaluate_cve sample_git_show Inr
     (sample_cve [''https://example.org/advisory'', ''https://git.kernel.org/stable/c/aaa'',
                  ''https://git.kernel.org/stable/c/bbb''])
     (set [''fs/b.c''])
   = ([''aaa'', ''bbb''], Inr True)"
proof -
  have refs: "subscript (sample_cve [''https://example.org/advisory'',
                ''https://git.kernel.org/stable/c/aaa'', ''https://git.kernel.org/stable/c/bbb''])
                ''references''
              = Inr (JArray ([reference ''https://example.org/advisory'']
                       @ reference ''https://git.kernel.org/stable/c/aaa''
                       # [reference ''https://git.kernel.org/stable/c/bbb'']))"
    by (simp add: sample_cve_def)
  have before: "\<forall>r \<in> set [reference ''https://example.org/advisory''].
                  \<exists>u. subscript r ''url'' = Inr (JString u) \<and> \<not> startswith u FIX_COMMIT_PREFIX"
    by (simp add: reference_def startswith_def FIX_COMMIT_PREFIX_def)
  have ref: "subscript (reference ''https://git.kernel.org/stable/c/aaa'') ''url''
               = Inr (JString ''https://git.kernel.org/stable/c/aaa'')"
    by (simp add: reference_def)
  have matches: "startswith ''https://git.kernel.org/stable/c/aaa'' FIX_COMMIT_PREFIX"
    by (simp add: startswith_def FIX_COMMIT_PREFIX_def)
  have failed: "sample_git_show (commit_of ''https://git.kernel.org/stable/c/aaa'') = Inr (128, [])"
    by code_simp
  have nonzero: "(128::int) \<noteq> 0"
    by simp
  have later: "evaluate_refs sample_git_show Inr (set [''fs/b.c''])
                 [reference ''https://git.kernel.org/stable/c/bbb''] = ([''bbb''], Inr True)"
    by code_simp
  have commit: "commit_of ''https://git.kernel.org/stable/c/aaa'' = ''aaa''"
    by code_simp
  show ?thesis
    using evaluate_cve_continues_after_failed_query
        [where before = "[reference ''https://example.org/advisory'']"
           and ref = "reference ''https://git.kernel.org/stable/c/aaa''"
           and later = "[reference ''https://git.kernel.org/stable/c/bbb'']"
           and url = "''https://git.kernel.org/stable/c/aaa''"
           and git_show = sample_git_show and returncode = 128 and out = "[]"
           and decode = Inr and compiled_files = "set [''fs/b.c'']",
         OF refs before ref matches failed nonzero]
    by (simp only: later commit fst_conv snd_conv)
qed

subsection \<open>C2: the invariant of an extracted path\<close>

text \<open>
  C2 says that a path kept by extraction is never empty, never \<open><built-in>\<close> and never
  absolute. The first two hold (\<open>extracted_path_kept\<close>); the third is what the removal of
  the build root is for, and the code misses a case of it. This is
  \<open>extract_sources_from_binary\<close> at the artifact \<open>lib/c.ko\<close>, whose debug information names a header under
  \<open>/home/u/linux-headers\<close>, a directory beside the build root \<open>/home/u/linux\<close>. The line
  starts with the build root, so it is not anomalous; it does not start with the build root
  and a slash, so nothing is removed from it; and it is kept, absolute as it was.
\<close>

theorem extract_keeps_absolute_path:
  "snd (extract_sources_from_binary ''/home/u/linux'' sample_dwarfdump Inr ''lib/c.ko'')
     = Inr [''/home/u/linux-headers/include/x.h'']
   \<and> isabs ''/home/u/linux-headers/include/x.h''"
  by code_simp

subsection \<open>C3: writing the set and reading it back\<close>

text \<open>
  C3, as stated, fails at the empty set. \<open>write_sources\<close> writes one line feed for the
  empty list; the loading step reads that as one empty line, which \<open>normpath\<close> turns into
  \<open>.\<close>, so the set read back has one element.
\<close>

theorem empty_set_not_read_back:
  "files (fst (snd (write_sources every_file ''/home/u/linux'' 0 ''out'' (state_of_list []))))
      ''/home/u/linux/out/sources.txt'' = Some [LF]
   \<and> load_compiled_files [LF] = set [''.'']
   \<and> load_compiled_files [LF] \<noteq> set []"
  by code_simp

text \<open>
  Nor is a path read back that starts with a space, as the path extracted from the raw line
  \<open>/home/u/linux/ a.c\<close> does: the loading step trims it.
\<close>

lemma padded_path_not_read_back:
  "snd (normalize_source_path ''/home/u/linux'' ''/home/u/linux/ a.c'') = '' a.c''
   \<and> load_compiled_files ('' a.c'' @ [LF]) = set [''a.c'']"
  by code_simp

text \<open>
  C3, amended: for every non-empty list of paths, each of them free of white space at its
  ends, unchanged by \<open>normpath\<close> and without a line feed or a carriage return in it, a
  successful \<open>write_sources\<close> leaves a file from which the loading step of the correlator
  reads exactly the set of the paths written.
\<close>

theorem write_then_load:
  assumes list: "heap st sources = Some xs"
    and nonempty: "xs \<noteq> []"
    and paths: "\<forall>p \<in> set xs. strip p = p \<and> normpath p = p \<and> LF \<notin> set p \<and> CR \<notin> set p"
    and writable: "writable (path_join (abspath CUR_DIR output_dir) OUTPUT_FILENAME)"
    and written: "write_sources writable CUR_DIR sources output_dir st = (l, st', r)"
  shows "r = Inr () \<and>
         (\<exists>content. files st' (path_join (abspath CUR_DIR output_dir) OUTPUT_FILENAME) = Some content
            \<and> load_compiled_files content = set xs)"
proof -
  let ?content = "join_str [LF] (sort xs) @ [LF]"
  from list writable written
  have r: "r = Inr ()"
    and stored: "files st' (path_join (abspath CUR_DIR output_dir) OUTPUT_FILENAME) = Some ?content"
    by (auto simp: write_sources_def Let_def)
  from nonempty have "sort xs \<noteq> []"
    by (metis set_empty set_sort)
  moreover from paths have "\<forall>p \<in> set (sort xs). LF \<notin> set p \<and> CR \<notin> set p"
    by simp
  ultimately have "readlines_from [] ?content = map (\<lambda>p. p @ [LF]) (sort xs)"
    by (rule readlines_join)
  then have "load_compiled_files ?content = (\<lambda>p. normpath (strip (p @ [LF]))) ` set xs"
    by (simp add: load_compiled_files_def readlines_def image_image)
  also have "\<dots> = set xs"
    using paths by (auto simp: strip_line image_iff)
  finally show ?thesis
    using r stored by simp
qed

text \<open>The amended C3 at a list of two paths, written out of order.\<close>

theorem write_then_load_witness:
  "snd (snd (write_sources every_file ''/home/u/linux'' 0 ''out''
               (state_of_list [''kernel/fork.c'', ''fs/a.c'']))) = Inr ()
   \<and> (\<exists>content.
        files (fst (snd (write_sources every_file ''/home/u/linux'' 0 ''out''
                           (state_of_list [''kernel/fork.c'', ''fs/a.c'']))))
          (path_join (abspath ''/home/u/linux'' ''out'') OUTPUT_FILENAME) = Some content
        \<and> load_compiled_files content = set [''kernel/fork.c'', ''fs/a.c''])"
proof -
  have list: "heap (state_of_list [''kernel/fork.c'', ''fs/a.c'']) 0
                = Some [''kernel/fork.c'', ''fs/a.c'']"
    by (simp add: state_of_list_def)
  have nonempty: "[''kernel/fork.c'', ''fs/a.c''] \<noteq> []"
    by simp
  have "strip ''kernel/fork.c'' = ''kernel/fork.c''" and "strip ''fs/a.c'' = ''fs/a.c''"
    and "normpath ''kernel/fork.c'' = ''kernel/fork.c''" and "normpath ''fs/a.c'' = ''fs/a.c''"
    by code_simp+
  then have paths: "\<forall>p \<in> set [''kernel/fork.c'', ''fs/a.c''].
                      strip p = p \<and> normpath p = p \<and> LF \<notin> set p \<and> CR \<notin> set p"
    by simp
  have writable: "every_file (path_join (abspath ''/home/u/linux'' ''out'') OUTPUT_FILENAME)"
    by (simp add: every_file_def)
  have written: "write_sources every_file ''/home/u/linux'' 0 ''out''
                   (state_of_list [''kernel/fork.c'', ''fs/a.c''])
                 = (fst (write_sources every_file ''/home/u/linux'' 0 ''out''
                           (state_of_list [''kernel/fork.c'', ''fs/a.c''])),
                    fst (snd (write_sources every_file ''/home/u/linux'' 0 ''out''
                           (state_of_list [''kernel/fork.c'', ''fs/a.c'']))),
                    snd (snd (write_sources every_file ''/home/u/linux'' 0 ''out''
                           (state_of_list [''kernel/fork.c'', ''fs/a.c'']))))"
    by simp
  show ?thesis
    by (rule write_then_load [OF list nonempty paths writable written])
qed

subsection \<open>C4: the verdict\<close>

text \<open>
  C4 says that for every record with a resolvable fix commit \<open>evaluate_cve\<close> returns true
  iff a changed file of the commit is a compiled file, the paths of both sides being
  compared after the same normalization. \<open>main\<close> trims the compiled paths and passes them
  to \<open>normpath\<close>; \<open>evaluate_cve\<close> trims the paths printed by git and does not pass them to
  \<open>normpath\<close>. Where \<open>normpath\<close> leaves the trimmed paths of git alone the two agree
  (\<open>evaluate_cve_verdict_canonical\<close>). They differ at the source file \<open>a.c\<close> in a
  directory whose name is a space and a dot: the extractor keeps its path as it is, the
  file of compiled paths holds it, \<open>main\<close> loads it as \<open>a.c\<close>, git prints it for commit
  \<open>ccc\<close>, which changed it, and the verdict is false, although the file changed is the
  file compiled and both paths normalize to \<open>a.c\<close>.
\<close>

theorem evaluate_cve_misses_compiled_file:
  "snd (normalize_source_path ''/home/u/linux'' ''/home/u/linux/ ./a.c'') = '' ./a.c''
   \<and> load_compiled_files ('' ./a.c'' @ [LF]) = set [''a.c'']
   \<and> sample_git_show (commit_of ''https://git.kernel.org/stable/c/ccc'') = Inr (0, '' ./a.c'' @ [LF])
   \<and> normpath (strip '' ./a.c'') \<in> load_compiled_files ('' ./a.c'' @ [LF])
   \<and> evaluate_cve sample_git_show Inr
        (sample_cve [''https://git.kernel.org/stable/c/ccc''])
        (load_compiled_files ('' ./a.c'' @ [LF]))
      = ([''ccc''], Inr False)"
  by code_simp

subsection \<open>C5: a failure of the introspection tool\<close>

text \<open>
  C5: if \<open>llvm-dwarfdump\<close> exits non-zero for any one of the artifacts, \<open>extract_sources\<close>
  raises, and \<open>main\<close> ends without writing: run with \<open>--no-compile\<close> it leaves the state,
  and so every file, as it found it, and run after a successful build it leaves the state
  that the build left.
\<close>

theorem extraction_failure_writes_nothing:
  assumes "binary \<in> set (''vmlinux'' # modules)"
    and "llvm_dwarfdump binary = Inr (returncode, out)" and "returncode \<noteq> 0"
  shows "(\<exists>l e. extract_sources list_of_set CUR_DIR llvm_dwarfdump decode modules = (l, Inl e))
       \<and> snd (main_extract_sources True setup_config compile_kernel list_of_set writable CUR_DIR
                 llvm_dwarfdump decode modules output_dir st) = st
       \<and> (\<forall>st1 st2 u1 u2.
            setup_config st = (st1, Inr u1) \<longrightarrow> compile_kernel st1 = (st2, Inr u2) \<longrightarrow>
            snd (main_extract_sources False setup_config compile_kernel list_of_set writable CUR_DIR
                   llvm_dwarfdump decode modules output_dir st) = st2)"
proof -
  from assms obtain l e where
    "sources_of_binaries CUR_DIR llvm_dwarfdump decode (''vmlinux'' # modules) = (l, Inl e)"
    using sources_of_binaries_fails by blast
  then have "extract_sources list_of_set CUR_DIR llvm_dwarfdump decode modules = (l, Inl e)"
    by (simp add: extract_sources_def)
  then show ?thesis
    by (simp add: main_extract_sources_def)
qed

text \<open>
  C5 at three artifacts, the tool failing for the last module only: with and without the
  build steps, the state is the one before extraction.
\<close>

theorem extraction_failure_writes_nothing_witness:
  "snd (main_extract_sources True nothing_to_build nothing_to_build remdups every_file
          ''/home/u/linux'' sample_dwarfdump Inr [''drivers/a.ko'', ''net/b.ko''] ''out''
          (state_of_list [])) = state_of_list []
   \<and> snd (main_extract_sources False nothing_to_build nothing_to_build remdups every_file
          ''/home/u/linux'' sample_dwarfdump Inr [''drivers/a.ko'', ''net/b.ko''] ''out''
          (state_of_list [])) = state_of_list []"
proof -
  have artifact: "''net/b.ko'' \<in> set (''vmlinux'' # [''drivers/a.ko'', ''net/b.ko''])"
    by simp
  have failed: "sample_dwarfdump ''net/b.ko'' = Inr (1, [])"
    by (simp add: sample_dwarfdump_def)
  have nonzero: "(1::int) \<noteq> 0"
    by simp
  have built: "nothing_to_build (state_of_list []) = (state_of_list [], Inr ())"
    by (simp add: nothing_to_build_def)
  show ?thesis
    using extraction_failure_writes_nothing [where binary = "''net/b.ko''"
        and modules = "[''drivers/a.ko'', ''net/b.ko'']" and llvm_dwarfdump = sample_dwarfdump
        and returncode = 1 and out = "[]" and list_of_set = remdups
        and CUR_DIR = "''/home/u/linux''" and decode = Inr
        and setup_config = nothing_to_build and compile_kernel = nothing_to_build
        and writable = every_file and output_dir = "''out''" and st = "state_of_list []",
        OF artifact failed nonzero]
      built
    by blast
qed

subsection \<open>C6: a line outside the build root\<close>

text \<open>
  C6: normalization trims the raw line first. For every raw line that then does not start
  with the build root, \<open>normalize_source_path\<close> logs one warning and returns the empty
  string, which the filter of \<open>extract_sources_from_binary\<close> drops. It is a total function
  of two strings: there is no input for which it raises.
\<close>

theorem normalize_source_path_outside:
  assumes "\<not> startswith (strip path) CUR_DIR"
  shows "normalize_source_path CUR_DIR path
           = ([Warning (''Found anomalous source file path '' @ strip path)], [])"
  using assms by (simp add: normalize_source_path_def)

text \<open>C6 at a header of the toolchain.\<close>

theorem normalize_source_path_outside_witness:
  "normalize_source_path ''/home/u/linux'' (''/usr/include/stdio.h'' @ [LF])
     = ([Warning ''Found anomalous source file path /usr/include/stdio.h''], [])"
proof -
  have trimmed: "strip (''/usr/include/stdio.h'' @ [LF]) = ''/usr/include/stdio.h''"
    by code_simp
  have outside: "\<not> startswith (strip (''/usr/include/stdio.h'' @ [LF])) ''/home/u/linux''"
    by code_simp
  have "normalize_source_path ''/home/u/linux'' (''/usr/include/stdio.h'' @ [LF])
          = ([Warning (''Found anomalous source file path ''
                         @ strip (''/usr/include/stdio.h'' @ [LF]))], [])"
    using outside by (rule normalize_source_path_outside)
  then show ?thesis
    unfolding trimmed by simp
qed

subsection \<open>C7: a feed that does not answer 200\<close>

text \<open>
  C7: if the request to the feed returns a status other than 200, \<open>fetch_cves\<close> prints that
  it failed and returns the empty list without raising, and \<open>main\<close> reports zero applicable
  records. The feed is asked only after the file of compiled paths has been read, so a run
  in which the request returned has read that file.
\<close>

theorem fetch_cves_non_200:
  assumes "status_code \<noteq> 200" and "fs ''compiled_files.txt'' = Some content"
  shows "fetch_cves (Inr (status_code, body)) json_loads = ([Failed_to_fetch], Inr [])
       \<and> main_process_cves fs (Inr (status_code, body)) json_loads git_show decode
           = ([Failed_to_fetch, We_care_about 0], Inr 0)"
  using assms by (simp add: fetch_cves_def main_process_cves_def)

text \<open>C7 at status 503.\<close>

theorem fetch_cves_non_200_witness:
  "fetch_cves (Inr (503, ''Service Unavailable'')) no_json = ([Failed_to_fetch], Inr [])
   \<and> main_process_cves sample_files (Inr (503, ''Service Unavailable'')) no_json sample_git_show Inr
       = ([Failed_to_fetch, We_care_about 0], Inr 0)"
proof -
  have status: "(503::int) \<noteq> 200"
    by simp
  have readable: "sample_files ''compiled_files.txt'' = Some (''fs/a.c'' @ [LF])"
    by (simp add: sample_files_def)
  show ?thesis
    by (rule fetch_cves_non_200 [where status_code = 503 and fs = sample_files
          and content = "''fs/a.c'' @ [LF]", OF status readable])
qed

subsection \<open>C8: a record without a fix-commit reference\<close>

text \<open>
  C8: for every record none of whose reference URLs starts with the fix-commit prefix,
  \<open>evaluate_cve\<close> returns false and asks nothing of git.
\<close>

theorem evaluate_cve_without_fix_reference:
  assumes "subscript cve ''references'' = Inr (JArray refs)"
    and "\<forall>ref \<in> set refs. \<exists>url. subscript ref ''url'' = Inr (JString url)
              \<and> \<not> startswith url FIX_COMMIT_PREFIX"
  shows "evaluate_cve git_show decode cve compiled_files = ([], Inr False)"
proof -
  have "evaluate_refs git_show decode compiled_files (refs @ [])
          = evaluate_refs git_show decode compiled_files []"
    using assms(2) by (rule evaluate_refs_skip_unrelated)
  then show ?thesis
    using assms(1) by (simp add: evaluate_cve_def)
qed

text \<open>C8 at a record with two advisory links.\<close>

theorem evaluate_cve_without_fix_reference_witness:
  "evaluate_cve sample_git_show Inr
     (sample_cve [''https://example.org/advisory'', ''https://lore.kernel.org/x''])
     (set [''fs/a.c''])
   = ([], Inr False)"
proof -
  have refs: "subscript (sample_cve [''https://example.org/advisory'', ''https://lore.kernel.org/x''])
                ''references''
              = Inr (JArray [reference ''https://example.org/advisory'',
                             reference ''https://lore.kernel.org/x''])"
    by (simp add: sample_cve_def)
  have unrelated: "\<forall>ref \<in> set [reference ''https://example.org/advisory'',
                               reference ''https://lore.kernel.org/x''].
                     \<exists>url. subscript ref ''url'' = Inr (JString url)
                       \<and> \<not> startswith url FIX_COMMIT_PREFIX"
    by (simp add: reference_def startswith_def FIX_COMMIT_PREFIX_def)
  show ?thesis
    by (rule evaluate_cve_without_fix_reference [OF refs unrelated])
qed

subsection \<open>C9: one entry for every extracted path\<close>

text \<open>
  C9: for every list of artifacts for which extraction succeeds, the extracted list has no
  duplicates, and every raw line in the debug output of any artifact whose normalized path
  is kept accounts for exactly one entry of the list, however many times and in however
  many artifacts it occurs.
\<close>

theorem extract_sources_duplicate_free:
  assumes order: "set_order list_of_set"
    and ok: "extract_sources list_of_set CUR_DIR llvm_dwarfdump decode modules = (l, Inr sources)"
  shows "distinct sources \<and>
         (\<forall>binary \<in> set (''vmlinux'' # modules). \<forall>raw listing.
            llvm_dwarfdump binary = Inr (0, raw) \<longrightarrow> decode raw = Inr listing \<longrightarrow>
            (\<forall>line \<in> set (str_splitlines (strip listing)).
               snd (normalize_source_path CUR_DIR line) \<notin> set [[], ''<built-in>''] \<longrightarrow>
               count_list sources (snd (normalize_source_path CUR_DIR line)) = 1))"
proof -
  from ok obtain found where
    all: "sources_of_binaries CUR_DIR llvm_dwarfdump decode (''vmlinux'' # modules) = (l, Inr found)"
    and sources: "sources = list_of_set found"
    by (auto simp: extract_sources_def Let_def split: prod.splits sum.splits)
  from order sources have d: "distinct sources" and s: "set sources = set found"
    by (simp_all add: set_order_def)
  have "count_list sources (snd (normalize_source_path CUR_DIR line)) = 1"
    if b: "binary \<in> set (''vmlinux'' # modules)"
      and run: "llvm_dwarfdump binary = Inr (0, raw)" and dec: "decode raw = Inr listing"
      and line: "line \<in> set (str_splitlines (strip listing))"
      and kept: "snd (normalize_source_path CUR_DIR line) \<notin> set [[], ''<built-in>'']"
    for binary raw listing line
  proof -
    let ?part = "filter (\<lambda>f. f \<notin> set [[], ''<built-in>''])
                   (map (\<lambda>line. snd (normalize_source_path CUR_DIR line))
                      (str_splitlines (strip listing)))"
    have "snd (extract_sources_from_binary CUR_DIR llvm_dwarfdump decode binary) = Inr ?part"
      using run dec by (rule extract_sources_from_binary_ok)
    with all b have "set ?part \<subseteq> set found"
      by (rule sources_of_binaries_subset)
    moreover have "snd (normalize_source_path CUR_DIR line) \<in> set ?part"
      using line kept by auto
    ultimately have "snd (normalize_source_path CUR_DIR line) \<in> set sources"
      using s by blast
    with d show ?thesis by (rule count_list_distinct)
  qed
  with d show ?thesis by blast
qed

text \<open>
  C9 at two artifacts: \<open>kernel/fork.c\<close> is named twice by the image, the second time
  as \<open>./kernel/fork.c\<close>, and once more by the module; it is one entry of the result.
\<close>

theorem extract_sources_duplicate_free_witness:
  "extract_sources remdups ''/home/u/linux'' sample_dwarfdump Inr [''drivers/a.ko'']
     = ([Info ''Extracting sources from vmlinux'',
         Warning ''Found anomalous source file path <built-in>'',
         Info ''Extracting sources from drivers/a.ko'',
         Warning ''Found anomalous source file path /usr/include/stdio.h''],
        Inr [''kernel/fork.c'', ''drivers/a.c''])
   \<and> distinct [''kernel/fork.c'', ''drivers/a.c'']
   \<and> count_list [''kernel/fork.c'', ''drivers/a.c'']
        (snd (normalize_source_path ''/home/u/linux'' ''/home/u/linux/./kernel/fork.c'')) = 1"
proof -
  have order: "set_order remdups"
    by (simp add: set_order_def)
  have ok: "extract_sources remdups ''/home/u/linux'' sample_dwarfdump Inr [''drivers/a.ko'']
     = ([Info ''Extracting sources from vmlinux'',
         Warning ''Found anomalous source file path <built-in>'',
         Info ''Extracting sources from drivers/a.ko'',
         Warning ''Found anomalous source file path /usr/include/stdio.h''],
        Inr [''kernel/fork.c'', ''drivers/a.c''])"
    by code_simp
  have artifact: "''vmlinux'' \<in> set (''vmlinux'' # [''drivers/a.ko''])"
    by simp
  have run: "sample_dwarfdump ''vmlinux''
               = Inr (0, ''/home/u/linux/kernel/fork.c'' @ [LF] @ ''/home/u/linux/./kernel/fork.c'' @ [LF]
                           @ ''<built-in>'' @ [LF])"
    by (simp add: sample_dwarfdump_def)
  have line: "''/home/u/linux/./kernel/fork.c''
                \<in> set (str_splitlines (strip (''/home/u/linux/kernel/fork.c'' @ [LF]
                          @ ''/home/u/linux/./kernel/fork.c'' @ [LF] @ ''<built-in>'' @ [LF])))"
    by code_simp
  have kept: "snd (normalize_source_path ''/home/u/linux'' ''/home/u/linux/./kernel/fork.c'')
                \<notin> set [[], ''<built-in>'']"
    by code_simp
  from extract_sources_duplicate_free [OF order ok]
  have "distinct [''kernel/fork.c'', ''drivers/a.c'']"
    and "count_list [''kernel/fork.c'', ''drivers/a.c'']
           (snd (normalize_source_path ''/home/u/linux'' ''/home/u/linux/./kernel/fork.c'')) = 1"
    using artifact run line kept by blast+
  with ok show ?thesis
    by blast
qed

subsection \<open>C10: the list given to \<open>write_sources\<close>\<close>

text \<open>
  C10: \<open>write_sources\<close> sorts the list of its caller where it is. Whatever becomes of the
  file, after the call the list at the address given holds the elements it held before, in
  sorted order; it is the list it was only if that was sorted already.
\<close>

theorem write_sources_sorts_argument:
  assumes "heap st sources = Some xs"
    and "write_sources writable CUR_DIR sources output_dir st = (l, st', r)"
  shows "heap st' sources = Some (sort xs) \<and> sorted (sort xs) \<and> set (sort xs) = set xs
           \<and> (heap st' sources = heap st sources \<longleftrightarrow> sorted xs)"
  using assms
  by (auto simp: write_sources_def Let_def sort_eq_iff_sorted split: if_splits)

text \<open>C10 at a list of two paths out of order, where the file cannot be written.\<close>

theorem write_sources_sorts_argument_witness:
  "heap (fst (snd (write_sources no_file ''/home/u/linux'' 0 ''out''
                     (state_of_list [''kernel/fork.c'', ''fs/a.c''])))) 0
     = Some [''fs/a.c'', ''kernel/fork.c'']
   \<and> heap (fst (snd (write_sources no_file ''/home/u/linux'' 0 ''out''
                     (state_of_list [''kernel/fork.c'', ''fs/a.c''])))) 0
     \<noteq> heap (state_of_list [''kernel/fork.c'', ''fs/a.c'']) 0"
proof -
  have list: "heap (state_of_list [''kernel/fork.c'', ''fs/a.c'']) 0
                = Some [''kernel/fork.c'', ''fs/a.c'']"
    by (simp add: state_of_list_def)
  have sorted: "sort [''kernel/fork.c'', ''fs/a.c''] = [''fs/a.c'', ''kernel/fork.c'']"
    by code_simp
  have written: "write_sources no_file ''/home/u/linux'' 0 ''out''
                   (state_of_list [''kernel/fork.c'', ''fs/a.c''])
                 = (fst (write_sources no_file ''/home/u/linux'' 0 ''out''
                           (state_of_list [''kernel/fork.c'', ''fs/a.c''])),
                    fst (snd (write_sources no_file ''/home/u/linux'' 0 ''out''
                           (state_of_list [''kernel/fork.c'', ''fs/a.c'']))),
                    snd (snd (write_sources no_file ''/home/u/linux'' 0 ''out''
                           (state_of_list [''kernel/fork.c'', ''fs/a.c'']))))"
    by simp
  show ?thesis
    using write_sources_sorts_argument [OF list written] by (simp add: sorted list)
qed

end
